theory Spec2Isabelle
  imports Complex_Main
begin

section \<open>The payment hook of src/hooks/usePaymentService.ts\<close>

text \<open>
  The hook \<^verbatim>\<open>usePaymentService\<close> owns two pieces of React state
  (\<^verbatim>\<open>isProcessing\<close>, \<^verbatim>\<open>error\<close>) and returns five flows and one query. Each
  flow is an async function of the shape
  \<^verbatim>\<open>set state; try { convert; call; check; wait; toast; return } catch { ... } finally { ... }\<close>.

  The embedding is by explicit state passing. The collaborators imported from
  \<^verbatim>\<open>../utils/paymentService\<close>, \<^verbatim>\<open>../utils/paymentVerification\<close> and
  \<^verbatim>\<open>sonner\<close> are not part of the file: the functions are fields of an
  environment record, each returning either the value thrown (or the rejection of its
  promise) on the left or its result on the right. Every flow calls each collaborator at
  most once, so a function of the arguments loses nothing. Calls to \<^verbatim>\<open>console\<close> are
  left out; \<^verbatim>\<open>toast\<close> and the two state setters are taken not to throw.
\<close>

subsection \<open>Values\<close>

text \<open>
  A JavaScript \<^verbatim>\<open>number\<close>, as far as the amount of a request needs it: the three
  non-finite values, and the finite ones by their exact rational value (both zeros are
  \<open>Finite 0\<close>).
\<close>

datatype number = NaN | Infinity | NegInfinity | Finite rat

text \<open>
  What a \<^verbatim>\<open>throw\<close> or a rejected promise carries: an instance of \<^verbatim>\<open>Error\<close> with its
  message, or any other value. The handlers only test \<^verbatim>\<open>instanceof Error\<close> and read
  \<^verbatim>\<open>message\<close>.
\<close>

datatype thrown = Error string | NonError

text \<open>\<^verbatim>\<open>error instanceof Error ? error.message : fallback\<close>\<close>

fun errorMessage :: "thrown \<Rightarrow> string \<Rightarrow> string" where
  "errorMessage (Error message) fallback = message"
| "errorMessage NonError fallback = fallback"

text \<open>
  Truthiness of an optional string, as \<^verbatim>\<open>if (errorCode)\<close> and \<^verbatim>\<open>!transactionId\<close>
  test it: \<^verbatim>\<open>undefined\<close> and the empty string are falsy.
\<close>

fun truthy :: "string option \<Rightarrow> bool" where
  "truthy None = False"
| "truthy (Some s) = (s \<noteq> [])"

text \<open>\<^verbatim>\<open>code || fallback\<close> on an optional string.\<close>

fun or_else :: "string option \<Rightarrow> string \<Rightarrow> string" where
  "or_else None fallback = fallback"
| "or_else (Some s) fallback = (if s \<noteq> [] then s else fallback)"

record PaymentData =
  orderId :: string
  amount :: number
  walletAddress :: string

record PaymentResult =
  success :: bool
  transactionId :: "string option"
  error :: "string option"

text \<open>
  The \<^verbatim>\<open>finalPayload\<close> of a wallet-client response. The flows read \<^verbatim>\<open>status\<close>,
  \<^verbatim>\<open>error_code\<close> and \<^verbatim>\<open>transaction_id\<close> of it, the last two optional.
\<close>

record payload =
  status :: string
  error_code :: "string option"
  transaction_id :: "string option"

record response =
  finalPayload :: payload

subsection \<open>Collaborators\<close>

text \<open>
  The imports of the hook. The type \<open>'w\<close> is what \<^verbatim>\<open>wldToWei\<close> returns (the amount in
  wei); its declaration is not in the file. \<^verbatim>\<open>PAYMENT_SERVICE_CONFIG\<close> contributes
  the two addresses passed to \<^verbatim>\<open>executePaymentService\<close>.
\<close>

record 'w env =
  wldToWei :: "number \<Rightarrow> thrown + 'w"
  executePaymentService :: "'w \<Rightarrow> string \<Rightarrow> string \<Rightarrow> string \<Rightarrow> thrown + response"
  executeSmartPayment :: "'w \<Rightarrow> string \<Rightarrow> string \<Rightarrow> thrown + response"
  approveWLDSpending :: "'w \<Rightarrow> thrown + response"
  hassufficientAllowance :: "string \<Rightarrow> 'w \<Rightarrow> thrown + bool"
  waitForTransactionConfirmation :: "string \<Rightarrow> thrown + unit"
  WLD_TOKEN_ADDRESS :: string
  RECIPIENT_ADDRESS :: string

subsection \<open>State and trace\<close>

text \<open>
  Everything a flow does to the outside, in the order it does it: the writes of the two
  state variables, the calls of the collaborators with their arguments, and the
  notifications.
\<close>

datatype 'w event =
    SetIsProcessing bool
  | SetError "string option"
  | CallWldToWei number
  | CallApproveWLDSpending 'w
  | CallExecutePaymentService 'w string string string
  | CallExecuteSmartPayment 'w string string
  | CallHassufficientAllowance string 'w
  | CallWaitForTransactionConfirmation string
  | ToastSuccess string
  | ToastError string

text \<open>
  The state of one hook instance: \<^verbatim>\<open>isProcessing\<close>, \<^verbatim>\<open>error\<close> (here
  \<open>hook_error\<close>, since \<open>error\<close> is the field of \<open>PaymentResult\<close>), and the trace of
  events so far, oldest first. Local variables of the source whose names are fields
  here are renamed: \<open>txId\<close> for \<^verbatim>\<open>transactionId\<close>, \<open>msg\<close> for \<^verbatim>\<open>errorMessage\<close>.
\<close>

record 'w hook_state =
  isProcessing :: bool
  hook_error :: "string option"
  events :: "'w event list"

definition emit :: "'w event \<Rightarrow> 'w hook_state \<Rightarrow> 'w hook_state" where
  "emit e s = s\<lparr>events := events s @ [e]\<rparr>"

definition setIsProcessing :: "bool \<Rightarrow> 'w hook_state \<Rightarrow> 'w hook_state" where
  "setIsProcessing b s = emit (SetIsProcessing b) (s\<lparr>isProcessing := b\<rparr>)"

definition setError :: "string option \<Rightarrow> 'w hook_state \<Rightarrow> 'w hook_state" where
  "setError e s = emit (SetError e) (s\<lparr>hook_error := e\<rparr>)"

definition toast_success :: "string \<Rightarrow> 'w hook_state \<Rightarrow> 'w hook_state" where
  "toast_success m s = emit (ToastSuccess m) s"

definition toast_error :: "string \<Rightarrow> 'w hook_state \<Rightarrow> 'w hook_state" where
  "toast_error m s = emit (ToastError m) s"

text \<open>
  \<^verbatim>\<open>try { await waitForTransactionConfirmation(id) } catch { console.warn(...) }\<close>:
  the call is made and both outcomes continue.
\<close>

definition confirm :: "'w env \<Rightarrow> string \<Rightarrow> 'w hook_state \<Rightarrow> 'w hook_state" where
  "confirm env txId s =
     (let s1 = emit (CallWaitForTransactionConfirmation txId) s in
      case waitForTransactionConfirmation env txId of
        Inr u \<Rightarrow> s1
      | Inl confirmationError \<Rightarrow> s1)"

subsection \<open>The flows\<close>

text \<open>
  Each flow is split as the source is: the \<^verbatim>\<open>try\<close> block, which ends with a thrown
  value or with the returned result, and the function itself, which sets the state,
  runs the block, handles a thrown value in \<^verbatim>\<open>catch\<close> and clears the flag in
  \<^verbatim>\<open>finally\<close>. The function returns how its promise settles (\<open>Inl\<close> a rejection,
  \<open>Inr\<close> the resolved value) and the state after it.
\<close>

definition processPayment_try ::
  "'w env \<Rightarrow> PaymentData \<Rightarrow> 'w hook_state \<Rightarrow> (thrown + PaymentResult) \<times> 'w hook_state" where
  "processPayment_try env data s =
     (let s1 = emit (CallWldToWei (amount data)) s in
      case wldToWei env (amount data) of
        Inl e \<Rightarrow> (Inl e, s1)
      | Inr amountInWei \<Rightarrow>
         (let s2 = emit (CallExecutePaymentService amountInWei (orderId data)
                      (WLD_TOKEN_ADDRESS env) (RECIPIENT_ADDRESS env)) s1 in
          case executePaymentService env amountInWei (orderId data)
                 (WLD_TOKEN_ADDRESS env) (RECIPIENT_ADDRESS env) of
            Inl e \<Rightarrow> (Inl e, s2)
          | Inr paymentResponse \<Rightarrow>
             if status (finalPayload paymentResponse) = ''error'' then
               (let errorCode = error_code (finalPayload paymentResponse) in
                if truthy errorCode then (Inl (Error (the errorCode)), s2)
                else (Inl (Error ''payment_failed''), s2))
             else
               (let txId = transaction_id (finalPayload paymentResponse) in
                if \<not> truthy txId
                then (Inl (Error ''No transaction ID received from payment''), s2)
                else
                  (let sc = confirm env (the txId) s2;
                       st = toast_success ''Payment successful!'' sc
                   in (Inr \<lparr>success = True, transactionId = txId, error = None\<rparr>, st)))))"

definition processPayment ::
  "'w env \<Rightarrow> PaymentData \<Rightarrow> 'w hook_state \<Rightarrow> (thrown + PaymentResult) \<times> 'w hook_state" where
  "processPayment env data s =
     (let s1 = setIsProcessing True s;
          s2 = setError None s1
      in case processPayment_try env data s2 of
           (Inr result, s3) \<Rightarrow> (Inr result, setIsProcessing False s3)
         | (Inl e, s3) \<Rightarrow>
            (let msg = errorMessage e ''Payment processing failed'';
                 s4 = setError (Some msg) s3;
                 s5 = toast_error msg s4
             in (Inr \<lparr>success = False, transactionId = None, error = Some msg\<rparr>,
                 setIsProcessing False s5)))"

text \<open>
  \<^verbatim>\<open>processPaymentWithApproval\<close>: one conversion, the approval call, and only past
  its status check the payment call with the same \<open>amountInWei\<close>. The approval's
  transaction id is not read and the approval is not waited for.
\<close>

definition processPaymentWithApproval_try ::
  "'w env \<Rightarrow> PaymentData \<Rightarrow> 'w hook_state \<Rightarrow> (thrown + PaymentResult) \<times> 'w hook_state" where
  "processPaymentWithApproval_try env data s =
     (let s1 = emit (CallWldToWei (amount data)) s in
      case wldToWei env (amount data) of
        Inl e \<Rightarrow> (Inl e, s1)
      | Inr amountInWei \<Rightarrow>
         (let s2 = emit (CallApproveWLDSpending amountInWei) s1 in
          case approveWLDSpending env amountInWei of
            Inl e \<Rightarrow> (Inl e, s2)
          | Inr approvalResponse \<Rightarrow>
             if status (finalPayload approvalResponse) = ''error'' then
               (Inl (Error (or_else (error_code (finalPayload approvalResponse))
                              ''approval_failed'')), s2)
             else
               (let s3 = emit (CallExecutePaymentService amountInWei (orderId data)
                            (WLD_TOKEN_ADDRESS env) (RECIPIENT_ADDRESS env)) s2 in
                case executePaymentService env amountInWei (orderId data)
                       (WLD_TOKEN_ADDRESS env) (RECIPIENT_ADDRESS env) of
                  Inl e \<Rightarrow> (Inl e, s3)
                | Inr paymentResponse \<Rightarrow>
                   if status (finalPayload paymentResponse) = ''error'' then
                     (let errorCode = error_code (finalPayload paymentResponse) in
                      if truthy errorCode then (Inl (Error (the errorCode)), s3)
                      else (Inl (Error ''payment_failed''), s3))
                   else
                     (let txId = transaction_id (finalPayload paymentResponse) in
                      if \<not> truthy txId
                      then (Inl (Error ''No transaction ID received from payment''), s3)
                      else
                        (let sc = confirm env (the txId) s3;
                             st = toast_success ''Payment successful!'' sc
                         in (Inr \<lparr>success = True, transactionId = txId, error = None\<rparr>, st))))))"

definition processPaymentWithApproval ::
  "'w env \<Rightarrow> PaymentData \<Rightarrow> 'w hook_state \<Rightarrow> (thrown + PaymentResult) \<times> 'w hook_state" where
  "processPaymentWithApproval env data s =
     (let s1 = setIsProcessing True s;
          s2 = setError None s1
      in case processPaymentWithApproval_try env data s2 of
           (Inr result, s3) \<Rightarrow> (Inr result, setIsProcessing False s3)
         | (Inl e, s3) \<Rightarrow>
            (let msg = errorMessage e ''Payment processing failed'';
                 s4 = setError (Some msg) s3;
                 s5 = toast_error msg s4
             in (Inr \<lparr>success = False, transactionId = None, error = Some msg\<rparr>,
                 setIsProcessing False s5)))"

definition processSmartPayment_try ::
  "'w env \<Rightarrow> PaymentData \<Rightarrow> 'w hook_state \<Rightarrow> (thrown + PaymentResult) \<times> 'w hook_state" where
  "processSmartPayment_try env data s =
     (let s1 = emit (CallWldToWei (amount data)) s in
      case wldToWei env (amount data) of
        Inl e \<Rightarrow> (Inl e, s1)
      | Inr amountInWei \<Rightarrow>
         (let s2 = emit (CallExecuteSmartPayment amountInWei (orderId data)
                      (walletAddress data)) s1 in
          case executeSmartPayment env amountInWei (orderId data) (walletAddress data) of
            Inl e \<Rightarrow> (Inl e, s2)
          | Inr paymentResponse \<Rightarrow>
             if status (finalPayload paymentResponse) = ''error'' then
               (let errorCode = error_code (finalPayload paymentResponse) in
                if truthy errorCode then (Inl (Error (the errorCode)), s2)
                else (Inl (Error ''payment_failed''), s2))
             else
               (let txId = transaction_id (finalPayload paymentResponse) in
                if \<not> truthy txId
                then (Inl (Error ''No transaction ID received from payment''), s2)
                else
                  (let sc = confirm env (the txId) s2;
                       st = toast_success ''Payment successful!'' sc
                   in (Inr \<lparr>success = True, transactionId = txId, error = None\<rparr>, st)))))"

definition processSmartPayment ::
  "'w env \<Rightarrow> PaymentData \<Rightarrow> 'w hook_state \<Rightarrow> (thrown + PaymentResult) \<times> 'w hook_state" where
  "processSmartPayment env data s =
     (let s1 = setIsProcessing True s;
          s2 = setError None s1
      in case processSmartPayment_try env data s2 of
           (Inr result, s3) \<Rightarrow> (Inr result, setIsProcessing False s3)
         | (Inl e, s3) \<Rightarrow>
            (let msg = errorMessage e ''Payment processing failed'';
                 s4 = setError (Some msg) s3;
                 s5 = toast_error msg s4
             in (Inr \<lparr>success = False, transactionId = None, error = Some msg\<rparr>,
                 setIsProcessing False s5)))"

text \<open>
  \<^verbatim>\<open>approveTokens(walletAddress, amount)\<close>: the transaction id is read without a
  check, the wait is made only for a truthy id, and the id is returned as read. The
  parameters are \<open>address\<close> and \<open>amountWLD\<close> here (the source's names are fields
  of \<open>PaymentData\<close>); the address is only logged.
\<close>

definition approveTokens_try ::
  "'w env \<Rightarrow> string \<Rightarrow> number \<Rightarrow> 'w hook_state \<Rightarrow> (thrown + PaymentResult) \<times> 'w hook_state" where
  "approveTokens_try env address amountWLD s =
     (let s1 = emit (CallWldToWei amountWLD) s in
      case wldToWei env amountWLD of
        Inl e \<Rightarrow> (Inl e, s1)
      | Inr amountInWei \<Rightarrow>
         (let s2 = emit (CallApproveWLDSpending amountInWei) s1 in
          case approveWLDSpending env amountInWei of
            Inl e \<Rightarrow> (Inl e, s2)
          | Inr approvalResponse \<Rightarrow>
             if status (finalPayload approvalResponse) = ''error'' then
               (Inl (Error (or_else (error_code (finalPayload approvalResponse))
                              ''approval_failed'')), s2)
             else
               (let txId = transaction_id (finalPayload approvalResponse);
                    sc = (if truthy txId then confirm env (the txId) s2 else s2);
                    st = toast_success
                           ''Token approval successful! You can now proceed with payment.'' sc
                in (Inr \<lparr>success = True, transactionId = txId, error = None\<rparr>, st))))"

definition approveTokens ::
  "'w env \<Rightarrow> string \<Rightarrow> number \<Rightarrow> 'w hook_state \<Rightarrow> (thrown + PaymentResult) \<times> 'w hook_state" where
  "approveTokens env address amountWLD s =
     (let s1 = setIsProcessing True s;
          s2 = setError None s1
      in case approveTokens_try env address amountWLD s2 of
           (Inr result, s3) \<Rightarrow> (Inr result, setIsProcessing False s3)
         | (Inl e, s3) \<Rightarrow>
            (let msg = errorMessage e ''Token approval failed'';
                 s4 = setError (Some msg) s3;
                 s5 = toast_error msg s4
             in (Inr \<lparr>success = False, transactionId = None, error = Some msg\<rparr>,
                 setIsProcessing False s5)))"

definition executePaymentOnly_try ::
  "'w env \<Rightarrow> PaymentData \<Rightarrow> 'w hook_state \<Rightarrow> (thrown + PaymentResult) \<times> 'w hook_state" where
  "executePaymentOnly_try env data s =
     (let s1 = emit (CallWldToWei (amount data)) s in
      case wldToWei env (amount data) of
        Inl e \<Rightarrow> (Inl e, s1)
      | Inr amountInWei \<Rightarrow>
         (let s2 = emit (CallExecutePaymentService amountInWei (orderId data)
                      (WLD_TOKEN_ADDRESS env) (RECIPIENT_ADDRESS env)) s1 in
          case executePaymentService env amountInWei (orderId data)
                 (WLD_TOKEN_ADDRESS env) (RECIPIENT_ADDRESS env) of
            Inl e \<Rightarrow> (Inl e, s2)
          | Inr paymentResponse \<Rightarrow>
             if status (finalPayload paymentResponse) = ''error'' then
               (let errorCode = error_code (finalPayload paymentResponse) in
                if truthy errorCode then (Inl (Error (the errorCode)), s2)
                else (Inl (Error ''payment_failed''), s2))
             else
               (let txId = transaction_id (finalPayload paymentResponse) in
                if \<not> truthy txId
                then (Inl (Error ''No transaction ID received from payment''), s2)
                else
                  (let sc = confirm env (the txId) s2;
                       st = toast_success ''Payment successful!'' sc
                   in (Inr \<lparr>success = True, transactionId = txId, error = None\<rparr>, st)))))"

definition executePaymentOnly ::
  "'w env \<Rightarrow> PaymentData \<Rightarrow> 'w hook_state \<Rightarrow> (thrown + PaymentResult) \<times> 'w hook_state" where
  "executePaymentOnly env data s =
     (let s1 = setIsProcessing True s;
          s2 = setError None s1
      in case executePaymentOnly_try env data s2 of
           (Inr result, s3) \<Rightarrow> (Inr result, setIsProcessing False s3)
         | (Inl e, s3) \<Rightarrow>
            (let msg = errorMessage e ''Payment processing failed'';
                 s4 = setError (Some msg) s3;
                 s5 = toast_error msg s4
             in (Inr \<lparr>success = False, transactionId = None, error = Some msg\<rparr>,
                 setIsProcessing False s5)))"

text \<open>
  \<^verbatim>\<open>checkAllowance\<close>: no state is set; the whole body is in the \<^verbatim>\<open>try\<close> block and
  the handler returns \<^verbatim>\<open>false\<close>.
\<close>

definition checkAllowance_try ::
  "'w env \<Rightarrow> string \<Rightarrow> number \<Rightarrow> 'w hook_state \<Rightarrow> (thrown + bool) \<times> 'w hook_state" where
  "checkAllowance_try env address amountWLD s =
     (let s1 = emit (CallWldToWei amountWLD) s in
      case wldToWei env amountWLD of
        Inl e \<Rightarrow> (Inl e, s1)
      | Inr amountInWei \<Rightarrow>
         (let s2 = emit (CallHassufficientAllowance address amountInWei) s1 in
          case hassufficientAllowance env address amountInWei of
            Inl e \<Rightarrow> (Inl e, s2)
          | Inr b \<Rightarrow> (Inr b, s2)))"

definition checkAllowance ::
  "'w env \<Rightarrow> string \<Rightarrow> number \<Rightarrow> 'w hook_state \<Rightarrow> (thrown + bool) \<times> 'w hook_state" where
  "checkAllowance env address amountWLD s =
     (case checkAllowance_try env address amountWLD s of
        (Inr b, s1) \<Rightarrow> (Inr b, s1)
      | (Inl e, s1) \<Rightarrow> (Inr False, s1))"

subsection \<open>The conversion, from the specification\<close>

text \<open>
  Modelled from the spec: \<^verbatim>\<open>wldToWei\<close> is imported from \<^verbatim>\<open>../utils/paymentService\<close>,
  which is not among the sources. The specification calls it \<open>convertAmount\<close>: a
  deterministic scaling by \<open>10 ^ 18\<close> to an integer that fails with \<open>InvalidAmount\<close>
  if the input is non-finite, negative, or zero. The failure is taken to be an
  \<^verbatim>\<open>Error\<close> carrying that name (the specification gives no message), and the
  rounding is truncation.
\<close>

definition InvalidAmount :: thrown where
  "InvalidAmount = Error ''InvalidAmount''"

fun convertAmount :: "number \<Rightarrow> thrown + int" where
  "convertAmount NaN = Inl InvalidAmount"
| "convertAmount Infinity = Inl InvalidAmount"
| "convertAmount NegInfinity = Inl InvalidAmount"
| "convertAmount (Finite a) = (if a \<le> 0 then Inl InvalidAmount else Inr \<lfloor>a * 10 ^ 18\<rfloor>)"

fun is_finite :: "number \<Rightarrow> bool" where
  "is_finite (Finite a) = True"
| "is_finite _ = False"

fun is_negative :: "number \<Rightarrow> bool" where
  "is_negative (Finite a) = (a < 0)"
| "is_negative NegInfinity = True"
| "is_negative _ = False"

fun is_zero :: "number \<Rightarrow> bool" where
  "is_zero (Finite a) = (a = 0)"
| "is_zero _ = False"

subsection \<open>Reading a run\<close>

text \<open>The events a run added to the trace, given the states before and after it.\<close>

definition emitted :: "'w hook_state \<Rightarrow> 'w hook_state \<Rightarrow> 'w event list" where
  "emitted s s' = drop (length (events s)) (events s')"

fun is_state_write :: "'w event \<Rightarrow> bool" where
  "is_state_write (SetIsProcessing b) = True"
| "is_state_write (SetError e) = True"
| "is_state_write _ = False"

fun is_flag_write :: "'w event \<Rightarrow> bool" where
  "is_flag_write (SetIsProcessing b) = True"
| "is_flag_write _ = False"

fun is_conversion :: "'w event \<Rightarrow> bool" where
  "is_conversion (CallWldToWei a) = True"
| "is_conversion _ = False"

fun is_approval_call :: "'w event \<Rightarrow> bool" where
  "is_approval_call (CallApproveWLDSpending w) = True"
| "is_approval_call _ = False"

fun is_payment_call :: "'w event \<Rightarrow> bool" where
  "is_payment_call (CallExecutePaymentService w ref token recipient) = True"
| "is_payment_call _ = False"

text \<open>The calls that reach the wallet client.\<close>

fun is_wallet_call :: "'w event \<Rightarrow> bool" where
  "is_wallet_call (CallApproveWLDSpending w) = True"
| "is_wallet_call (CallExecutePaymentService w ref token recipient) = True"
| "is_wallet_call (CallExecuteSmartPayment w ref wallet) = True"
| "is_wallet_call (CallHassufficientAllowance wallet w) = True"
| "is_wallet_call _ = False"

fun is_notification :: "'w event \<Rightarrow> bool" where
  "is_notification (ToastSuccess m) = True"
| "is_notification (ToastError m) = True"
| "is_notification _ = False"

text \<open>
  What the wallet client answers to the call a flow makes for a request: the payment
  call, the smart payment call and the approval call, each made with the converted
  amount. A failed conversion is a thrown value here too, so \<open>Inr r\<close> says that the
  conversion succeeded and the call returned the response \<open>r\<close>.
\<close>

definition payment_outcome :: "'w env \<Rightarrow> PaymentData \<Rightarrow> thrown + response" where
  "payment_outcome env data =
     (case wldToWei env (amount data) of
        Inl e \<Rightarrow> Inl e
      | Inr w \<Rightarrow> executePaymentService env w (orderId data)
                  (WLD_TOKEN_ADDRESS env) (RECIPIENT_ADDRESS env))"

definition smart_outcome :: "'w env \<Rightarrow> PaymentData \<Rightarrow> thrown + response" where
  "smart_outcome env data =
     (case wldToWei env (amount data) of
        Inl e \<Rightarrow> Inl e
      | Inr w \<Rightarrow> executeSmartPayment env w (orderId data) (walletAddress data))"

definition approval_outcome :: "'w env \<Rightarrow> number \<Rightarrow> thrown + response" where
  "approval_outcome env amountWLD =
     (case wldToWei env amountWLD of
        Inl e \<Rightarrow> Inl e
      | Inr w \<Rightarrow> approveWLDSpending env w)"

text \<open>The two shapes of a resolved flow.\<close>

abbreviation failure :: "string \<Rightarrow> thrown + PaymentResult" where
  "failure msg \<equiv> Inr \<lparr>success = False, transactionId = None, error = Some msg\<rparr>"

abbreviation submitted :: "string option \<Rightarrow> thrown + PaymentResult" where
  "submitted txId \<equiv> Inr \<lparr>success = True, transactionId = txId, error = None\<rparr>"

subsection \<open>Properties of a whole run\<close>

text \<open>
  The flag is raised and the error cleared before anything else, the flag is written
  twice in all (up, then down), the last thing done is to lower it, it is down in the
  state returned, and the promise resolves.
\<close>

definition brackets_processing ::
  "'w hook_state \<Rightarrow> (thrown + PaymentResult) \<times> 'w hook_state \<Rightarrow> bool" where
  "brackets_processing s run =
     (take 2 (emitted s (snd run)) = [SetIsProcessing True, SetError None] \<and>
      filter is_flag_write (emitted s (snd run)) = [SetIsProcessing True, SetIsProcessing False] \<and>
      last (emitted s (snd run)) = SetIsProcessing False \<and>
      isProcessing (snd run) = False \<and>
      (case fst run of Inr result \<Rightarrow> True | Inl e \<Rightarrow> False))"

text \<open>
  One notification in the whole run: the success message \<open>m\<close> when the result says
  success, else the error message of the result.
\<close>

definition notifies_once ::
  "string \<Rightarrow> 'w hook_state \<Rightarrow> (thrown + PaymentResult) \<times> 'w hook_state \<Rightarrow> bool" where
  "notifies_once m s run =
     (case fst run of
        Inl e \<Rightarrow> False
      | Inr result \<Rightarrow>
         (if success result
          then filter is_notification (emitted s (snd run)) = [ToastSuccess m]
          else (case error result of
                  None \<Rightarrow> False
                | Some msg \<Rightarrow>
                   filter is_notification (emitted s (snd run)) = [ToastError msg])))"

subsection \<open>Sample collaborators\<close>

text \<open>
  A wallet client that answers every approval with one outcome and every payment with
  another, a watcher with one outcome, and the conversion of the specification.
\<close>

definition sample_env ::
  "(thrown + response) \<Rightarrow> (thrown + response) \<Rightarrow> (thrown + unit) \<Rightarrow> int env" where
  "sample_env approval payment confirmation =
     \<lparr>wldToWei = convertAmount,
      executePaymentService = (\<lambda>w ref token recipient. payment),
      executeSmartPayment = (\<lambda>w ref wallet. payment),
      approveWLDSpending = (\<lambda>w. approval),
      hassufficientAllowance = (\<lambda>wallet w. Inr True),
      waitForTransactionConfirmation = (\<lambda>txId. confirmation),
      WLD_TOKEN_ADDRESS = ''0xWLD'',
      RECIPIENT_ADDRESS = ''0xShop''\<rparr>"

definition Failure :: "string option \<Rightarrow> thrown + response" where
  "Failure code =
     Inr \<lparr>finalPayload = \<lparr>status = ''error'', error_code = code, transaction_id = None\<rparr>\<rparr>"

definition Success :: "string option \<Rightarrow> thrown + response" where
  "Success txId =
     Inr \<lparr>finalPayload = \<lparr>status = ''success'', error_code = None, transaction_id = txId\<rparr>\<rparr>"

definition order1 :: PaymentData where
  "order1 = \<lparr>orderId = ''order-1'', amount = Finite 2, walletAddress = ''0xabc''\<rparr>"

definition idle :: "int hook_state" where
  "idle = \<lparr>isProcessing = False, hook_error = None, events = []\<rparr>"

section \<open>Properties\<close>

subsection \<open>The primitives, field by field\<close>

lemma emit_fields [simp]:
  "events (emit e s) = events s @ [e]"
  "isProcessing (emit e s) = isProcessing s"
  "hook_error (emit e s) = hook_error s"
  by (simp_all add: emit_def)

lemma setIsProcessing_fields [simp]:
  "events (setIsProcessing b s) = events s @ [SetIsProcessing b]"
  "isProcessing (setIsProcessing b s) = b"
  "hook_error (setIsProcessing b s) = hook_error s"
  by (simp_all add: setIsProcessing_def)

lemma setError_fields [simp]:
  "events (setError e s) = events s @ [SetError e]"
  "isProcessing (setError e s) = isProcessing s"
  "hook_error (setError e s) = e"
  by (simp_all add: setError_def)

lemma toast_fields [simp]:
  "events (toast_success m s) = events s @ [ToastSuccess m]"
  "isProcessing (toast_success m s) = isProcessing s"
  "hook_error (toast_success m s) = hook_error s"
  "events (toast_error m s) = events s @ [ToastError m]"
  "isProcessing (toast_error m s) = isProcessing s"
  "hook_error (toast_error m s) = hook_error s"
  by (simp_all add: toast_success_def toast_error_def)

text \<open>Whatever the watcher answers, the wait leaves the same trace and state.\<close>

lemma confirm_fields [simp]:
  "events (confirm env t s) = events s @ [CallWaitForTransactionConfirmation t]"
  "isProcessing (confirm env t s) = isProcessing s"
  "hook_error (confirm env t s) = hook_error s"
  by (simp_all add: confirm_def Let_def split: sum.split)

lemmas flow_unfold =
  processPayment_def processPayment_try_def
  processPaymentWithApproval_def processPaymentWithApproval_try_def
  processSmartPayment_def processSmartPayment_try_def
  approveTokens_def approveTokens_try_def
  executePaymentOnly_def executePaymentOnly_try_def
  checkAllowance_def checkAllowance_try_def
  emitted_def Let_def

subsection \<open>The paths through a flow\<close>

text \<open>
  A flow with one wallet-client call takes one of five paths, decided by the conversion,
  the call, the status of the response and the transaction id.
\<close>

lemma call_paths:
  fixes conv :: "thrown + 'w" and call :: "'w \<Rightarrow> thrown + response"
  obtains (convert_throws) e where "conv = Inl e"
  | (call_throws) w e where "conv = Inr w" "call w = Inl e"
  | (call_failure) w r where "conv = Inr w" "call w = Inr r"
      "status (finalPayload r) = ''error''"
  | (no_id) w r where "conv = Inr w" "call w = Inr r"
      "status (finalPayload r) \<noteq> ''error''" "\<not> truthy (transaction_id (finalPayload r))"
  | (with_id) w r where "conv = Inr w" "call w = Inr r"
      "status (finalPayload r) \<noteq> ''error''" "truthy (transaction_id (finalPayload r))"
proof (cases conv)
  case (Inl e)
  then show ?thesis by (rule convert_throws)
next
  case w: (Inr w)
  show ?thesis
  proof (cases "call w")
    case (Inl e)
    with w show ?thesis by (rule call_throws)
  next
    case r: (Inr r)
    show ?thesis
    proof (cases "status (finalPayload r) = ''error''")
      case True
      with w r show ?thesis by (rule call_failure)
    next
      case False
      with w r show ?thesis
        by (cases "truthy (transaction_id (finalPayload r))") (auto intro: no_id with_id)
    qed
  qed
qed

lemmas payment_paths =
  call_paths [where conv = "wldToWei env (amount d)" and call =
    "\<lambda>w. executePaymentService env w (orderId d) (WLD_TOKEN_ADDRESS env) (RECIPIENT_ADDRESS env)"]
  for env d

lemmas smart_paths =
  call_paths [where conv = "wldToWei env (amount d)" and call =
    "\<lambda>w. executeSmartPayment env w (orderId d) (walletAddress d)"]
  for env d

lemmas approval_paths =
  call_paths [where conv = "wldToWei env a" and call = "approveWLDSpending env"]
  for env a

text \<open>
  \<^verbatim>\<open>processPaymentWithApproval\<close> has the approval in front: it can throw or fail, and
  past it the payment takes its own four paths.
\<close>

lemma approval_payment_paths:
  obtains (convert_throws) e where "wldToWei env (amount d) = Inl e"
  | (approval_throws) w e where "wldToWei env (amount d) = Inr w"
      "approveWLDSpending env w = Inl e"
  | (approval_failure) w ra where "wldToWei env (amount d) = Inr w"
      "approveWLDSpending env w = Inr ra" "status (finalPayload ra) = ''error''"
  | (payment_throws) w ra e where "wldToWei env (amount d) = Inr w"
      "approveWLDSpending env w = Inr ra" "status (finalPayload ra) \<noteq> ''error''"
      "executePaymentService env w (orderId d) (WLD_TOKEN_ADDRESS env) (RECIPIENT_ADDRESS env)
         = Inl e"
  | (payment_failure) w ra r where "wldToWei env (amount d) = Inr w"
      "approveWLDSpending env w = Inr ra" "status (finalPayload ra) \<noteq> ''error''"
      "executePaymentService env w (orderId d) (WLD_TOKEN_ADDRESS env) (RECIPIENT_ADDRESS env)
         = Inr r"
      "status (finalPayload r) = ''error''"
  | (no_id) w ra r where "wldToWei env (amount d) = Inr w"
      "approveWLDSpending env w = Inr ra" "status (finalPayload ra) \<noteq> ''error''"
      "executePaymentService env w (orderId d) (WLD_TOKEN_ADDRESS env) (RECIPIENT_ADDRESS env)
         = Inr r"
      "status (finalPayload r) \<noteq> ''error''" "\<not> truthy (transaction_id (finalPayload r))"
  | (with_id) w ra r where "wldToWei env (amount d) = Inr w"
      "approveWLDSpending env w = Inr ra" "status (finalPayload ra) \<noteq> ''error''"
      "executePaymentService env w (orderId d) (WLD_TOKEN_ADDRESS env) (RECIPIENT_ADDRESS env)
         = Inr r"
      "status (finalPayload r) \<noteq> ''error''" "truthy (transaction_id (finalPayload r))"
proof (cases "wldToWei env (amount d)")
  case (Inl e)
  then show ?thesis by (rule convert_throws)
next
  case w: (Inr w)
  show ?thesis
  proof (cases "approveWLDSpending env w")
    case (Inl e)
    with w show ?thesis by (rule approval_throws)
  next
    case ra: (Inr ra)
    show ?thesis
    proof (cases "status (finalPayload ra) = ''error''")
      case True
      with w ra show ?thesis by (rule approval_failure)
    next
      case ok: False
      show ?thesis
      proof (rule payment_paths [of env d])
        fix e assume "wldToWei env (amount d) = Inl e"
        with w show ?thesis by simp
      next
        fix w' e
        assume "wldToWei env (amount d) = Inr w'"
          "executePaymentService env w' (orderId d) (WLD_TOKEN_ADDRESS env)
             (RECIPIENT_ADDRESS env) = Inl e"
        with w ra ok show ?thesis by (auto intro: payment_throws)
      next
        fix w' r
        assume "wldToWei env (amount d) = Inr w'"
          "executePaymentService env w' (orderId d) (WLD_TOKEN_ADDRESS env)
             (RECIPIENT_ADDRESS env) = Inr r"
          "status (finalPayload r) = ''error''"
        with w ra ok show ?thesis by (auto intro: payment_failure)
      next
        fix w' r
        assume "wldToWei env (amount d) = Inr w'"
          "executePaymentService env w' (orderId d) (WLD_TOKEN_ADDRESS env)
             (RECIPIENT_ADDRESS env) = Inr r"
          "status (finalPayload r) \<noteq> ''error''" "\<not> truthy (transaction_id (finalPayload r))"
        with w ra ok show ?thesis by (auto intro: no_id)
      next
        fix w' r
        assume "wldToWei env (amount d) = Inr w'"
          "executePaymentService env w' (orderId d) (WLD_TOKEN_ADDRESS env)
             (RECIPIENT_ADDRESS env) = Inr r"
          "status (finalPayload r) \<noteq> ''error''" "truthy (transaction_id (finalPayload r))"
        with w ra ok show ?thesis by (auto intro: with_id)
      qed
    qed
  qed
qed

subsection \<open>The processing flag\<close>

lemma processPayment_brackets: "brackets_processing s (processPayment env d s)"
  unfolding brackets_processing_def
  by (rule payment_paths [of env d]; simp add: flow_unfold)

lemma processPaymentWithApproval_brackets:
  "brackets_processing s (processPaymentWithApproval env d s)"
  unfolding brackets_processing_def
  by (rule approval_payment_paths [of env d]; simp add: flow_unfold)

lemma processSmartPayment_brackets: "brackets_processing s (processSmartPayment env d s)"
  unfolding brackets_processing_def
  by (rule smart_paths [of env d]; simp add: flow_unfold)

lemma approveTokens_brackets: "brackets_processing s (approveTokens env wallet a s)"
  unfolding brackets_processing_def
  by (rule approval_paths [of env a]; simp add: flow_unfold)

lemma executePaymentOnly_brackets: "brackets_processing s (executePaymentOnly env d s)"
  unfolding brackets_processing_def
  by (rule payment_paths [of env d]; simp add: flow_unfold)

text \<open>
  C5. Each of the five flows, on every path (a result returned from the \<^verbatim>\<open>try\<close>
  block, a failure thrown in it, an exception of a collaborator), first sets
  \<^verbatim>\<open>isProcessing\<close> to true and \<^verbatim>\<open>error\<close> to null, and its promise resolves with
  \<^verbatim>\<open>isProcessing\<close> false, the lowering of the flag being the last thing done.
\<close>

theorem flows_bracket_processing:
  "brackets_processing s (processPayment env d s) \<and>
   brackets_processing s (processPaymentWithApproval env d s) \<and>
   brackets_processing s (processSmartPayment env d s) \<and>
   brackets_processing s (approveTokens env wallet a s) \<and>
   brackets_processing s (executePaymentOnly env d s)"
  by (simp only: processPayment_brackets processPaymentWithApproval_brackets
      processSmartPayment_brackets approveTokens_brackets executePaymentOnly_brackets)

subsection \<open>What a flow returns\<close>

lemma payment_outcomeD:
  assumes "payment_outcome env d = Inr r"
  obtains w where "wldToWei env (amount d) = Inr w"
    and "executePaymentService env w (orderId d) (WLD_TOKEN_ADDRESS env) (RECIPIENT_ADDRESS env)
           = Inr r"
  using assms by (auto simp: payment_outcome_def split: sum.splits)

lemma smart_outcomeD:
  assumes "smart_outcome env d = Inr r"
  obtains w where "wldToWei env (amount d) = Inr w"
    and "executeSmartPayment env w (orderId d) (walletAddress d) = Inr r"
  using assms by (auto simp: smart_outcome_def split: sum.splits)

lemma approval_outcomeD:
  assumes "approval_outcome env a = Inr r"
  obtains w where "wldToWei env a = Inr w" and "approveWLDSpending env w = Inr r"
  using assms by (auto simp: approval_outcome_def split: sum.splits)

text \<open>A Failure outcome of the payment call, flow by flow.\<close>

lemma processPayment_failure:
  assumes "payment_outcome env d = Inr r" and "status (finalPayload r) = ''error''"
  shows "fst (processPayment env d s)
         = failure (or_else (error_code (finalPayload r)) ''payment_failed'')"
  using assms(1)
proof (rule payment_outcomeD)
  fix w
  assume "wldToWei env (amount d) = Inr w"
    and "executePaymentService env w (orderId d) (WLD_TOKEN_ADDRESS env) (RECIPIENT_ADDRESS env)
           = Inr r"
  with assms(2) show ?thesis
    by (cases "error_code (finalPayload r)") (simp_all add: flow_unfold)
qed

lemma executePaymentOnly_failure:
  assumes "payment_outcome env d = Inr r" and "status (finalPayload r) = ''error''"
  shows "fst (executePaymentOnly env d s)
         = failure (or_else (error_code (finalPayload r)) ''payment_failed'')"
  using assms(1)
proof (rule payment_outcomeD)
  fix w
  assume "wldToWei env (amount d) = Inr w"
    and "executePaymentService env w (orderId d) (WLD_TOKEN_ADDRESS env) (RECIPIENT_ADDRESS env)
           = Inr r"
  with assms(2) show ?thesis
    by (cases "error_code (finalPayload r)") (simp_all add: flow_unfold)
qed

lemma processSmartPayment_failure:
  assumes "smart_outcome env d = Inr r" and "status (finalPayload r) = ''error''"
  shows "fst (processSmartPayment env d s)
         = failure (or_else (error_code (finalPayload r)) ''payment_failed'')"
  using assms(1)
proof (rule smart_outcomeD)
  fix w
  assume "wldToWei env (amount d) = Inr w"
    and "executeSmartPayment env w (orderId d) (walletAddress d) = Inr r"
  with assms(2) show ?thesis
    by (cases "error_code (finalPayload r)") (simp_all add: flow_unfold)
qed

lemma processPaymentWithApproval_payment_failure:
  assumes "approval_outcome env (amount d) = Inr ra"
    and "status (finalPayload ra) \<noteq> ''error''"
    and "payment_outcome env d = Inr r" and "status (finalPayload r) = ''error''"
  shows "fst (processPaymentWithApproval env d s)
         = failure (or_else (error_code (finalPayload r)) ''payment_failed'')"
  using assms(1)
proof (rule approval_outcomeD)
  fix w
  assume w: "wldToWei env (amount d) = Inr w" and ra: "approveWLDSpending env w = Inr ra"
  from assms(3) w
  have "executePaymentService env w (orderId d) (WLD_TOKEN_ADDRESS env) (RECIPIENT_ADDRESS env)
          = Inr r"
    by (simp add: payment_outcome_def)
  with w ra assms(2,4) show ?thesis
    by (cases "error_code (finalPayload r)") (simp_all add: flow_unfold)
qed

text \<open>A Failure outcome of the approval call.\<close>

lemma approveTokens_failure:
  assumes "approval_outcome env a = Inr r" and "status (finalPayload r) = ''error''"
  shows "fst (approveTokens env wallet a s)
         = failure (or_else (error_code (finalPayload r)) ''approval_failed'')"
  using assms(1)
proof (rule approval_outcomeD)
  fix w
  assume "wldToWei env a = Inr w" and "approveWLDSpending env w = Inr r"
  with assms(2) show ?thesis
    by (simp add: flow_unfold)
qed

lemma processPaymentWithApproval_approval_failure:
  assumes "approval_outcome env (amount d) = Inr r" and "status (finalPayload r) = ''error''"
  shows "fst (processPaymentWithApproval env d s)
         = failure (or_else (error_code (finalPayload r)) ''approval_failed'')"
  using assms(1)
proof (rule approval_outcomeD)
  fix w
  assume "wldToWei env (amount d) = Inr w" and "approveWLDSpending env w = Inr r"
  with assms(2) show ?thesis
    by (simp add: flow_unfold)
qed

text \<open>
  C1. When the wallet client answers a flow's call with a Failure outcome (status
  \<^verbatim>\<open>"error"\<close>), the flow resolves to \<^verbatim>\<open>{success: false, error}\<close>. Present means
  what the source tests with \<^verbatim>\<open>if (errorCode)\<close> and \<^verbatim>\<open>||\<close>: a code that is given
  and is not the empty string; such a code \<open>c\<close> is the error, verbatim. A code that is
  absent (\<^verbatim>\<open>undefined\<close>, or the empty string, which the same tests treat alike) gives
  \<^verbatim>\<open>"payment_failed"\<close> for the payment calls of \<^verbatim>\<open>processPayment\<close>,
  \<^verbatim>\<open>executePaymentOnly\<close>, \<^verbatim>\<open>processSmartPayment\<close> and
  \<^verbatim>\<open>processPaymentWithApproval\<close>, and \<^verbatim>\<open>"approval_failed"\<close> for the approval calls of
  \<^verbatim>\<open>approveTokens\<close> and \<^verbatim>\<open>processPaymentWithApproval\<close>.
\<close>

theorem failure_outcome_normalized:
  assumes "status (finalPayload r) = ''error''"
  shows
    "(error_code (finalPayload r) = Some c \<and> c \<noteq> [] \<longrightarrow>
        (payment_outcome env d = Inr r \<longrightarrow> fst (processPayment env d s) = failure c) \<and>
        (payment_outcome env d = Inr r \<longrightarrow> fst (executePaymentOnly env d s) = failure c) \<and>
        (smart_outcome env d = Inr r \<longrightarrow> fst (processSmartPayment env d s) = failure c) \<and>
        (approval_outcome env (amount d) = Inr ra \<and> status (finalPayload ra) \<noteq> ''error'' \<and>
         payment_outcome env d = Inr r \<longrightarrow>
           fst (processPaymentWithApproval env d s) = failure c) \<and>
        (approval_outcome env a = Inr r \<longrightarrow> fst (approveTokens env wallet a s) = failure c) \<and>
        (approval_outcome env (amount d) = Inr r \<longrightarrow>
           fst (processPaymentWithApproval env d s) = failure c)) \<and>
     (error_code (finalPayload r) = None \<or> error_code (finalPayload r) = Some [] \<longrightarrow>
        (payment_outcome env d = Inr r \<longrightarrow>
           fst (processPayment env d s) = failure ''payment_failed'') \<and>
        (payment_outcome env d = Inr r \<longrightarrow>
           fst (executePaymentOnly env d s) = failure ''payment_failed'') \<and>
        (smart_outcome env d = Inr r \<longrightarrow>
           fst (processSmartPayment env d s) = failure ''payment_failed'') \<and>
        (approval_outcome env (amount d) = Inr ra \<and> status (finalPayload ra) \<noteq> ''error'' \<and>
         payment_outcome env d = Inr r \<longrightarrow>
           fst (processPaymentWithApproval env d s) = failure ''payment_failed'') \<and>
        (approval_outcome env a = Inr r \<longrightarrow>
           fst (approveTokens env wallet a s) = failure ''approval_failed'') \<and>
        (approval_outcome env (amount d) = Inr r \<longrightarrow>
           fst (processPaymentWithApproval env d s) = failure ''approval_failed''))"
proof (intro conjI impI)
  assume c: "error_code (finalPayload r) = Some c \<and> c \<noteq> []"
  then have present: "or_else (error_code (finalPayload r)) fallback = c" for fallback
    by simp
  {
    assume "payment_outcome env d = Inr r"
    from processPayment_failure [OF this assms] present
    show "fst (processPayment env d s) = failure c" by simp
  next
    assume "payment_outcome env d = Inr r"
    from executePaymentOnly_failure [OF this assms] present
    show "fst (executePaymentOnly env d s) = failure c" by simp
  next
    assume "smart_outcome env d = Inr r"
    from processSmartPayment_failure [OF this assms] present
    show "fst (processSmartPayment env d s) = failure c" by simp
  next
    assume "approval_outcome env (amount d) = Inr ra \<and> status (finalPayload ra) \<noteq> ''error'' \<and>
      payment_outcome env d = Inr r"
    then have "fst (processPaymentWithApproval env d s)
        = failure (or_else (error_code (finalPayload r)) ''payment_failed'')"
      using assms by (intro processPaymentWithApproval_payment_failure [of env d ra r]) simp_all
    with present show "fst (processPaymentWithApproval env d s) = failure c" by simp
  next
    assume "approval_outcome env a = Inr r"
    from approveTokens_failure [OF this assms] present
    show "fst (approveTokens env wallet a s) = failure c" by simp
  next
    assume "approval_outcome env (amount d) = Inr r"
    from processPaymentWithApproval_approval_failure [OF this assms] present
    show "fst (processPaymentWithApproval env d s) = failure c" by simp
  }
next
  assume "error_code (finalPayload r) = None \<or> error_code (finalPayload r) = Some []"
  then have absent: "or_else (error_code (finalPayload r)) fallback = fallback" for fallback
    by auto
  {
    assume "payment_outcome env d = Inr r"
    from processPayment_failure [OF this assms] absent
    show "fst (processPayment env d s) = failure ''payment_failed''" by simp
  next
    assume "payment_outcome env d = Inr r"
    from executePaymentOnly_failure [OF this assms] absent
    show "fst (executePaymentOnly env d s) = failure ''payment_failed''" by simp
  next
    assume "smart_outcome env d = Inr r"
    from processSmartPayment_failure [OF this assms] absent
    show "fst (processSmartPayment env d s) = failure ''payment_failed''" by simp
  next
    assume "approval_outcome env (amount d) = Inr ra \<and> status (finalPayload ra) \<noteq> ''error'' \<and>
      payment_outcome env d = Inr r"
    then have "fst (processPaymentWithApproval env d s)
        = failure (or_else (error_code (finalPayload r)) ''payment_failed'')"
      using assms by (intro processPaymentWithApproval_payment_failure [of env d ra r]) simp_all
    with absent show "fst (processPaymentWithApproval env d s) = failure ''payment_failed''"
      by simp
  next
    assume "approval_outcome env a = Inr r"
    from approveTokens_failure [OF this assms] absent
    show "fst (approveTokens env wallet a s) = failure ''approval_failed''" by simp
  next
    assume "approval_outcome env (amount d) = Inr r"
    from processPaymentWithApproval_approval_failure [OF this assms] absent
    show "fst (processPaymentWithApproval env d s) = failure ''approval_failed''" by simp
  }
qed

lemma sample_env_outcomes [simp]:
  "payment_outcome (sample_env approval payment confirmation) order1 = payment"
  "smart_outcome (sample_env approval payment confirmation) order1 = payment"
  "approval_outcome (sample_env approval payment confirmation) (Finite 2) = approval"
  "amount order1 = Finite 2"
  by (simp_all add: payment_outcome_def smart_outcome_def approval_outcome_def
      sample_env_def order1_def)

lemma sample_responses [simp]:
  "Failure code = Inr r \<Longrightarrow> status (finalPayload r) = ''error''"
  "Failure code = Inr r \<Longrightarrow> error_code (finalPayload r) = code"
  "Success txId = Inr r \<Longrightarrow> status (finalPayload r) = ''success''"
  "Success txId = Inr r \<Longrightarrow> transaction_id (finalPayload r) = txId"
  by (auto simp: Failure_def Success_def)

theorem failure_outcome_normalized_witness:
  "fst (processPayment (sample_env (Success None) (Failure (Some ''user_rejected'')) (Inr ()))
          order1 idle) = failure ''user_rejected'' \<and>
   fst (processSmartPayment (sample_env (Success None) (Failure None) (Inr ()))
          order1 idle) = failure ''payment_failed'' \<and>
   fst (approveTokens (sample_env (Failure None) (Success None) (Inr ()))
          ''0xabc'' (Finite 2) idle) = failure ''approval_failed'' \<and>
   fst (processPaymentWithApproval (sample_env (Failure (Some ''user_rejected''))
          (Success None) (Inr ())) order1 idle) = failure ''user_rejected''"
proof -
  obtain r where r: "Failure (Some ''user_rejected'') = Inr r"
    by (simp add: Failure_def)
  obtain r' where r': "Failure None = Inr r'"
    by (simp add: Failure_def)
  from r have e: "status (finalPayload r) = ''error''" by simp
  from r' have e': "status (finalPayload r') = ''error''" by simp
  from failure_outcome_normalized [OF e, where c = "''user_rejected''"
      and env = "sample_env (Success None) (Failure (Some ''user_rejected'')) (Inr ())"
      and d = order1 and s = idle] r
  have 1: "fst (processPayment (sample_env (Success None) (Failure (Some ''user_rejected''))
      (Inr ())) order1 idle) = failure ''user_rejected''"
    by simp
  from failure_outcome_normalized [OF e', where env = "sample_env (Success None) (Failure None) (Inr ())"
      and d = order1 and s = idle] r'
  have 2: "fst (processSmartPayment (sample_env (Success None) (Failure None) (Inr ()))
      order1 idle) = failure ''payment_failed''"
    by simp
  from failure_outcome_normalized [OF e', where env = "sample_env (Failure None) (Success None) (Inr ())"
      and a = "Finite 2" and wallet = "''0xabc''" and s = idle] r'
  have 3: "fst (approveTokens (sample_env (Failure None) (Success None) (Inr ()))
      ''0xabc'' (Finite 2) idle) = failure ''approval_failed''"
    by simp
  from failure_outcome_normalized [OF e, where c = "''user_rejected''"
      and env = "sample_env (Failure (Some ''user_rejected'')) (Success None) (Inr ())"
      and d = order1 and s = idle] r
  have 4: "fst (processPaymentWithApproval (sample_env (Failure (Some ''user_rejected''))
      (Success None) (Inr ())) order1 idle) = failure ''user_rejected''"
    by simp
  from 1 2 3 4 show ?thesis by (intro conjI)
qed


text \<open>
  A response whose status is not \<^verbatim>\<open>"error"\<close>: the payment flows ask for a truthy
  transaction id, \<^verbatim>\<open>approveTokens\<close> returns the id as it came.
\<close>

lemma processPayment_success:
  assumes "payment_outcome env d = Inr r" and "status (finalPayload r) \<noteq> ''error''"
  shows "fst (processPayment env d s)
         = (if truthy (transaction_id (finalPayload r))
            then submitted (transaction_id (finalPayload r))
            else failure ''No transaction ID received from payment'')"
  using assms(1)
proof (rule payment_outcomeD)
  fix w
  assume "wldToWei env (amount d) = Inr w"
    and "executePaymentService env w (orderId d) (WLD_TOKEN_ADDRESS env) (RECIPIENT_ADDRESS env)
           = Inr r"
  with assms(2) show ?thesis
    by (simp add: flow_unfold)
qed

lemma executePaymentOnly_success:
  assumes "payment_outcome env d = Inr r" and "status (finalPayload r) \<noteq> ''error''"
  shows "fst (executePaymentOnly env d s)
         = (if truthy (transaction_id (finalPayload r))
            then submitted (transaction_id (finalPayload r))
            else failure ''No transaction ID received from payment'')"
  using assms(1)
proof (rule payment_outcomeD)
  fix w
  assume "wldToWei env (amount d) = Inr w"
    and "executePaymentService env w (orderId d) (WLD_TOKEN_ADDRESS env) (RECIPIENT_ADDRESS env)
           = Inr r"
  with assms(2) show ?thesis
    by (simp add: flow_unfold)
qed

lemma processSmartPayment_success:
  assumes "smart_outcome env d = Inr r" and "status (finalPayload r) \<noteq> ''error''"
  shows "fst (processSmartPayment env d s)
         = (if truthy (transaction_id (finalPayload r))
            then submitted (transaction_id (finalPayload r))
            else failure ''No transaction ID received from payment'')"
  using assms(1)
proof (rule smart_outcomeD)
  fix w
  assume "wldToWei env (amount d) = Inr w"
    and "executeSmartPayment env w (orderId d) (walletAddress d) = Inr r"
  with assms(2) show ?thesis
    by (simp add: flow_unfold)
qed

lemma processPaymentWithApproval_success:
  assumes "approval_outcome env (amount d) = Inr ra"
    and "status (finalPayload ra) \<noteq> ''error''"
    and "payment_outcome env d = Inr r" and "status (finalPayload r) \<noteq> ''error''"
  shows "fst (processPaymentWithApproval env d s)
         = (if truthy (transaction_id (finalPayload r))
            then submitted (transaction_id (finalPayload r))
            else failure ''No transaction ID received from payment'')"
  using assms(1)
proof (rule approval_outcomeD)
  fix w
  assume w: "wldToWei env (amount d) = Inr w" and ra: "approveWLDSpending env w = Inr ra"
  from assms(3) w
  have "executePaymentService env w (orderId d) (WLD_TOKEN_ADDRESS env) (RECIPIENT_ADDRESS env)
          = Inr r"
    by (simp add: payment_outcome_def)
  with w ra assms(2,4) show ?thesis
    by (simp add: flow_unfold)
qed

lemma approveTokens_success:
  assumes "approval_outcome env a = Inr r" and "status (finalPayload r) \<noteq> ''error''"
  shows "fst (approveTokens env wallet a s) = submitted (transaction_id (finalPayload r))"
  using assms(1)
proof (rule approval_outcomeD)
  fix w
  assume "wldToWei env a = Inr w" and "approveWLDSpending env w = Inr r"
  with assms(2) show ?thesis
    by (simp add: flow_unfold)
qed

text \<open>
  C2. When the wallet client reports success (a status other than \<^verbatim>\<open>"error"\<close>) and
  the payload has no transaction id, the four payment flows resolve to
  \<^verbatim>\<open>{success: false, error: "No transaction ID received from payment"}\<close>, while
  \<^verbatim>\<open>approveTokens\<close> resolves to \<^verbatim>\<open>{success: true}\<close> with \<^verbatim>\<open>transactionId\<close>
  undefined.
\<close>

theorem missing_transaction_id_asymmetry:
  assumes "status (finalPayload r) \<noteq> ''error''"
    and "transaction_id (finalPayload r) = None"
  shows
    "(payment_outcome env d = Inr r \<longrightarrow>
        fst (processPayment env d s) = failure ''No transaction ID received from payment'') \<and>
     (payment_outcome env d = Inr r \<longrightarrow>
        fst (executePaymentOnly env d s) = failure ''No transaction ID received from payment'') \<and>
     (smart_outcome env d = Inr r \<longrightarrow>
        fst (processSmartPayment env d s) = failure ''No transaction ID received from payment'') \<and>
     (approval_outcome env (amount d) = Inr ra \<and> status (finalPayload ra) \<noteq> ''error'' \<and>
      payment_outcome env d = Inr r \<longrightarrow>
        fst (processPaymentWithApproval env d s)
        = failure ''No transaction ID received from payment'') \<and>
     (approval_outcome env a = Inr r \<longrightarrow>
        fst (approveTokens env wallet a s) = submitted None)"
  using assms
  by (simp add: processPayment_success executePaymentOnly_success processSmartPayment_success
      processPaymentWithApproval_success approveTokens_success)

theorem missing_transaction_id_asymmetry_witness:
  "fst (processPayment (sample_env (Success None) (Success None) (Inr ())) order1 idle)
     = failure ''No transaction ID received from payment'' \<and>
   fst (processPaymentWithApproval (sample_env (Success None) (Success None) (Inr ()))
          order1 idle)
     = failure ''No transaction ID received from payment'' \<and>
   fst (approveTokens (sample_env (Success None) (Success None) (Inr ()))
          ''0xabc'' (Finite 2) idle)
     = submitted None"
proof -
  obtain r where r: "Success None = Inr r"
    by (simp add: Success_def)
  from r have ok: "status (finalPayload r) \<noteq> ''error''"
    and none: "transaction_id (finalPayload r) = None"
    by simp_all
  from missing_transaction_id_asymmetry [OF ok none,
      where env = "sample_env (Success None) (Success None) (Inr ())"
      and d = order1 and s = idle and ra = r and a = "Finite 2" and wallet = "''0xabc''"] r ok
  show ?thesis by simp
qed

subsection \<open>The confirmation wait\<close>

lemma outcomes_ignore_watcher [simp]:
  "payment_outcome (env\<lparr>waitForTransactionConfirmation := wait\<rparr>) d = payment_outcome env d"
  "smart_outcome (env\<lparr>waitForTransactionConfirmation := wait\<rparr>) d = smart_outcome env d"
  "approval_outcome (env\<lparr>waitForTransactionConfirmation := wait\<rparr>) a = approval_outcome env a"
  by (simp_all add: payment_outcome_def smart_outcome_def approval_outcome_def
      split: sum.split)

text \<open>
  C3. Once the wallet client has answered with success and a transaction id (a
  non-empty one, as the data model has it), the flow resolves to
  \<^verbatim>\<open>{success: true, transactionId}\<close> whatever \<^verbatim>\<open>waitForTransactionConfirmation\<close>
  does: \<open>wait\<close> below is any behaviour of the watcher, a rejection or a timeout
  included. For \<^verbatim>\<open>processPaymentWithApproval\<close> the answer in question is that of
  the payment call, after an approval that did not fail.
\<close>

theorem confirmation_failure_absorbed:
  assumes "status (finalPayload r) \<noteq> ''error''"
    and "transaction_id (finalPayload r) = Some t" and "t \<noteq> []"
  shows
    "(payment_outcome env d = Inr r \<longrightarrow>
        fst (processPayment (env\<lparr>waitForTransactionConfirmation := wait\<rparr>) d s)
        = submitted (Some t)) \<and>
     (payment_outcome env d = Inr r \<longrightarrow>
        fst (executePaymentOnly (env\<lparr>waitForTransactionConfirmation := wait\<rparr>) d s)
        = submitted (Some t)) \<and>
     (smart_outcome env d = Inr r \<longrightarrow>
        fst (processSmartPayment (env\<lparr>waitForTransactionConfirmation := wait\<rparr>) d s)
        = submitted (Some t)) \<and>
     (approval_outcome env (amount d) = Inr ra \<and> status (finalPayload ra) \<noteq> ''error'' \<and>
      payment_outcome env d = Inr r \<longrightarrow>
        fst (processPaymentWithApproval (env\<lparr>waitForTransactionConfirmation := wait\<rparr>) d s)
        = submitted (Some t)) \<and>
     (approval_outcome env a = Inr r \<longrightarrow>
        fst (approveTokens (env\<lparr>waitForTransactionConfirmation := wait\<rparr>) wallet a s)
        = submitted (Some t))"
  using assms
  by (simp add: processPayment_success executePaymentOnly_success processSmartPayment_success
      processPaymentWithApproval_success approveTokens_success)

theorem confirmation_failure_absorbed_witness:
  "fst (processPayment
          ((sample_env (Success None) (Success (Some ''0xfeed'')) (Inr ()))
             \<lparr>waitForTransactionConfirmation := (\<lambda>txId. Inl (Error ''timeout''))\<rparr>)
          order1 idle)
     = submitted (Some ''0xfeed'') \<and>
   fst (approveTokens
          ((sample_env (Success (Some ''0xfeed'')) (Success None) (Inr ()))
             \<lparr>waitForTransactionConfirmation := (\<lambda>txId. Inl NonError)\<rparr>)
          ''0xabc'' (Finite 2) idle)
     = submitted (Some ''0xfeed'')"
proof -
  obtain r where r: "Success (Some ''0xfeed'') = Inr r"
    by (simp add: Success_def)
  from r have ok: "status (finalPayload r) \<noteq> ''error''"
    and id: "transaction_id (finalPayload r) = Some ''0xfeed''"
    by simp_all
  have nonempty: "''0xfeed'' \<noteq> []" by simp
  from confirmation_failure_absorbed [OF ok id nonempty,
      where env = "sample_env (Success None) (Success (Some ''0xfeed'')) (Inr ())"
      and d = order1 and s = idle and wait = "\<lambda>txId. Inl (Error ''timeout'')"] r
  have 1: "fst (processPayment
          ((sample_env (Success None) (Success (Some ''0xfeed'')) (Inr ()))
             \<lparr>waitForTransactionConfirmation := (\<lambda>txId. Inl (Error ''timeout''))\<rparr>)
          order1 idle) = submitted (Some ''0xfeed'')"
    by simp
  from confirmation_failure_absorbed [OF ok id nonempty,
      where env = "sample_env (Success (Some ''0xfeed'')) (Success None) (Inr ())"
      and a = "Finite 2" and wallet = "''0xabc''" and s = idle
      and wait = "\<lambda>txId. Inl NonError"] r
  have 2: "fst (approveTokens
          ((sample_env (Success (Some ''0xfeed'')) (Success None) (Inr ()))
             \<lparr>waitForTransactionConfirmation := (\<lambda>txId. Inl NonError)\<rparr>)
          ''0xabc'' (Finite 2) idle) = submitted (Some ''0xfeed'')"
    by simp
  from 1 2 show ?thesis by (intro conjI)
qed

subsection \<open>Approval before payment\<close>

lemma processPaymentWithApproval_stops:
  assumes "approval_outcome env (amount d) = Inr r" and "status (finalPayload r) = ''error''"
  shows "filter is_payment_call (emitted s (snd (processPaymentWithApproval env d s))) = []"
  using assms(1)
proof (rule approval_outcomeD)
  fix w
  assume "wldToWei env (amount d) = Inr w" and "approveWLDSpending env w = Inr r"
  with assms(2) show ?thesis
    by (simp add: flow_unfold)
qed

text \<open>
  C4. When the approval call of \<^verbatim>\<open>processPaymentWithApproval\<close> returns a Failure
  outcome, \<^verbatim>\<open>executePaymentService\<close> is not called at all in that run, and the flow
  resolves to the approval's failure: its error code when present (given and not
  empty), \<^verbatim>\<open>"approval_failed"\<close> when absent.
\<close>

theorem approval_failure_stops_payment:
  assumes "approval_outcome env (amount d) = Inr r" and "status (finalPayload r) = ''error''"
  shows
    "filter is_payment_call (emitted s (snd (processPaymentWithApproval env d s))) = [] \<and>
     (error_code (finalPayload r) = Some c \<and> c \<noteq> [] \<longrightarrow>
        fst (processPaymentWithApproval env d s) = failure c) \<and>
     (error_code (finalPayload r) = None \<or> error_code (finalPayload r) = Some [] \<longrightarrow>
        fst (processPaymentWithApproval env d s) = failure ''approval_failed'')"
  using assms
  by (auto simp: processPaymentWithApproval_stops processPaymentWithApproval_approval_failure)

theorem approval_failure_stops_payment_witness:
  "filter is_payment_call
     (emitted idle (snd (processPaymentWithApproval
        (sample_env (Failure (Some ''user_rejected'')) (Success (Some ''0xfeed'')) (Inr ()))
        order1 idle))) = [] \<and>
   fst (processPaymentWithApproval
        (sample_env (Failure (Some ''user_rejected'')) (Success (Some ''0xfeed'')) (Inr ()))
        order1 idle) = failure ''user_rejected''"
proof -
  obtain r where r: "Failure (Some ''user_rejected'') = Inr r"
    by (simp add: Failure_def)
  then have a: "approval_outcome
      (sample_env (Failure (Some ''user_rejected'')) (Success (Some ''0xfeed'')) (Inr ()))
      (amount order1) = Inr r"
    and e: "status (finalPayload r) = ''error''"
    by simp_all
  from approval_failure_stops_payment [OF a e, where c = "''user_rejected''" and s = idle] r
  show ?thesis by simp
qed


subsection \<open>The allowance query\<close>

text \<open>
  C6. \<^verbatim>\<open>checkAllowance\<close> never throws: its promise always resolves to a boolean. It
  resolves to \<^verbatim>\<open>false\<close> when the conversion throws and when
  \<^verbatim>\<open>hassufficientAllowance\<close> throws or rejects, and to the predicate's own answer
  otherwise.
\<close>

theorem checkAllowance_fail_closed:
  "(\<exists>b. fst (checkAllowance env wallet a s) = Inr b) \<and>
   (wldToWei env a = Inl e \<longrightarrow> fst (checkAllowance env wallet a s) = Inr False) \<and>
   (wldToWei env a = Inr w \<and> hassufficientAllowance env wallet w = Inl e \<longrightarrow>
      fst (checkAllowance env wallet a s) = Inr False) \<and>
   (wldToWei env a = Inr w \<and> hassufficientAllowance env wallet w = Inr b \<longrightarrow>
      fst (checkAllowance env wallet a s) = Inr b)"
proof (intro conjI impI)
  show "\<exists>b. fst (checkAllowance env wallet a s) = Inr b"
  proof (cases "wldToWei env a")
    case (Inl e)
    then have "fst (checkAllowance env wallet a s) = Inr False"
      by (simp add: flow_unfold)
    then show ?thesis ..
  next
    case (Inr w)
    then show ?thesis
      by (cases "hassufficientAllowance env wallet w") (auto simp: flow_unfold)
  qed
next
  assume "wldToWei env a = Inl e"
  then show "fst (checkAllowance env wallet a s) = Inr False"
    by (simp add: flow_unfold)
next
  assume "wldToWei env a = Inr w \<and> hassufficientAllowance env wallet w = Inl e"
  then show "fst (checkAllowance env wallet a s) = Inr False"
    by (simp add: flow_unfold)
next
  assume "wldToWei env a = Inr w \<and> hassufficientAllowance env wallet w = Inr b"
  then show "fst (checkAllowance env wallet a s) = Inr b"
    by (simp add: flow_unfold)
qed

theorem checkAllowance_fail_closed_witness:
  "fst (checkAllowance (sample_env (Success None) (Success None) (Inr ()))
          ''0xabc'' NaN idle) = Inr False \<and>
   fst (checkAllowance
          ((sample_env (Success None) (Success None) (Inr ()))
             \<lparr>hassufficientAllowance := (\<lambda>wallet w. Inl (Error ''rpc down''))\<rparr>)
          ''0xabc'' (Finite 2) idle) = Inr False \<and>
   fst (checkAllowance (sample_env (Success None) (Success None) (Inr ()))
          ''0xabc'' (Finite 2) idle) = Inr True"
proof -
  obtain w where w: "convertAmount (Finite 2) = Inr w"
    by simp
  from checkAllowance_fail_closed [where env = "sample_env (Success None) (Success None) (Inr ())"
      and a = NaN and e = InvalidAmount and wallet = "''0xabc''" and s = idle]
  have 1: "fst (checkAllowance (sample_env (Success None) (Success None) (Inr ()))
          ''0xabc'' NaN idle) = Inr False"
    by (simp add: sample_env_def)
  from checkAllowance_fail_closed [where env = "(sample_env (Success None) (Success None) (Inr ()))
             \<lparr>hassufficientAllowance := (\<lambda>wallet w. Inl (Error ''rpc down''))\<rparr>"
      and a = "Finite 2" and w = w and e = "Error ''rpc down''" and wallet = "''0xabc''"
      and s = idle] w
  have 2: "fst (checkAllowance
          ((sample_env (Success None) (Success None) (Inr ()))
             \<lparr>hassufficientAllowance := (\<lambda>wallet w. Inl (Error ''rpc down''))\<rparr>)
          ''0xabc'' (Finite 2) idle) = Inr False"
    by (simp add: sample_env_def)
  from checkAllowance_fail_closed [where env = "sample_env (Success None) (Success None) (Inr ())"
      and a = "Finite 2" and w = w and b = True and wallet = "''0xabc''" and s = idle] w
  have 3: "fst (checkAllowance (sample_env (Success None) (Success None) (Inr ()))
          ''0xabc'' (Finite 2) idle) = Inr True"
    by (simp add: sample_env_def)
  from 1 2 3 show ?thesis by (intro conjI)
qed

text \<open>
  C10. \<^verbatim>\<open>checkAllowance\<close> writes neither state variable: \<^verbatim>\<open>isProcessing\<close> and
  \<^verbatim>\<open>error\<close> are after it what they were before, on the normal path and on the
  path through its handler, and its trace has no write. Each of the five flows does
  write both, first of all.
\<close>

theorem checkAllowance_leaves_state:
  "isProcessing (snd (checkAllowance env wallet a s)) = isProcessing s \<and>
   hook_error (snd (checkAllowance env wallet a s)) = hook_error s \<and>
   filter is_state_write (emitted s (snd (checkAllowance env wallet a s))) = [] \<and>
   take 2 (filter is_state_write (emitted s (snd (processPayment env d s))))
     = [SetIsProcessing True, SetError None] \<and>
   take 2 (filter is_state_write (emitted s (snd (processPaymentWithApproval env d s))))
     = [SetIsProcessing True, SetError None] \<and>
   take 2 (filter is_state_write (emitted s (snd (processSmartPayment env d s))))
     = [SetIsProcessing True, SetError None] \<and>
   take 2 (filter is_state_write (emitted s (snd (approveTokens env wallet a s))))
     = [SetIsProcessing True, SetError None] \<and>
   take 2 (filter is_state_write (emitted s (snd (executePaymentOnly env d s))))
     = [SetIsProcessing True, SetError None]"
proof -
  have query: "isProcessing (snd (checkAllowance env wallet a s)) = isProcessing s \<and>
      hook_error (snd (checkAllowance env wallet a s)) = hook_error s \<and>
      filter is_state_write (emitted s (snd (checkAllowance env wallet a s))) = []"
  proof (cases "wldToWei env a")
    case (Inl e)
    then show ?thesis by (simp add: flow_unfold)
  next
    case (Inr w)
    then show ?thesis
      by (cases "hassufficientAllowance env wallet w") (simp_all add: flow_unfold)
  qed
  have 1: "take 2 (filter is_state_write (emitted s (snd (processPayment env d s))))
      = [SetIsProcessing True, SetError None]"
    by (rule payment_paths [of env d]; simp add: flow_unfold)
  have 2: "take 2 (filter is_state_write (emitted s (snd (processPaymentWithApproval env d s))))
      = [SetIsProcessing True, SetError None]"
    by (rule approval_payment_paths [of env d]; simp add: flow_unfold)
  have 3: "take 2 (filter is_state_write (emitted s (snd (processSmartPayment env d s))))
      = [SetIsProcessing True, SetError None]"
    by (rule smart_paths [of env d]; simp add: flow_unfold)
  have 4: "take 2 (filter is_state_write (emitted s (snd (approveTokens env wallet a s))))
      = [SetIsProcessing True, SetError None]"
    by (rule approval_paths [of env a]; simp add: flow_unfold)
  have 5: "take 2 (filter is_state_write (emitted s (snd (executePaymentOnly env d s))))
      = [SetIsProcessing True, SetError None]"
    by (rule payment_paths [of env d]; simp add: flow_unfold)
  from query 1 2 3 4 5 show ?thesis by (intro conjI) simp_all
qed

subsection \<open>One conversion for approval and payment\<close>

lemma processPaymentWithApproval_converts_once:
  "filter is_conversion (emitted s (snd (processPaymentWithApproval env d s)))
   = [CallWldToWei (amount d)]"
  by (rule approval_payment_paths [of env d]; simp add: flow_unfold)

lemma processPaymentWithApproval_amounts:
  assumes "wldToWei env (amount d) = Inr w" and "approveWLDSpending env w = Inr ra"
    and "status (finalPayload ra) \<noteq> ''error''"
  shows "filter is_approval_call (emitted s (snd (processPaymentWithApproval env d s)))
         = [CallApproveWLDSpending w] \<and>
         filter is_payment_call (emitted s (snd (processPaymentWithApproval env d s)))
         = [CallExecutePaymentService w (orderId d) (WLD_TOKEN_ADDRESS env)
              (RECIPIENT_ADDRESS env)]"
proof (rule approval_payment_paths [of env d])
qed (use assms in \<open>simp_all add: flow_unfold\<close>)

text \<open>
  C7. A run of \<^verbatim>\<open>processPaymentWithApproval\<close> calls \<^verbatim>\<open>wldToWei\<close> exactly once, on
  the amount of the request, on every path. When the approval did not fail, the run has
  one approval call and one payment call, and both carry the value \<open>w\<close> that this one
  conversion returned.
\<close>

theorem approval_and_payment_share_amount:
  "filter is_conversion (emitted s (snd (processPaymentWithApproval env d s)))
     = [CallWldToWei (amount d)] \<and>
   (wldToWei env (amount d) = Inr w \<and> approveWLDSpending env w = Inr ra \<and>
    status (finalPayload ra) \<noteq> ''error'' \<longrightarrow>
      filter is_approval_call (emitted s (snd (processPaymentWithApproval env d s)))
        = [CallApproveWLDSpending w] \<and>
      filter is_payment_call (emitted s (snd (processPaymentWithApproval env d s)))
        = [CallExecutePaymentService w (orderId d) (WLD_TOKEN_ADDRESS env)
             (RECIPIENT_ADDRESS env)])"
  using processPaymentWithApproval_converts_once [of s env d]
    processPaymentWithApproval_amounts [of env d w ra s]
  by blast

theorem approval_and_payment_share_amount_witness:
  "filter is_conversion (emitted idle (snd (processPaymentWithApproval
      (sample_env (Success None) (Success (Some ''0xfeed'')) (Inr ())) order1 idle)))
     = [CallWldToWei (Finite 2)] \<and>
   filter is_approval_call (emitted idle (snd (processPaymentWithApproval
      (sample_env (Success None) (Success (Some ''0xfeed'')) (Inr ())) order1 idle)))
     = [CallApproveWLDSpending 2000000000000000000] \<and>
   filter is_payment_call (emitted idle (snd (processPaymentWithApproval
      (sample_env (Success None) (Success (Some ''0xfeed'')) (Inr ())) order1 idle)))
     = [CallExecutePaymentService 2000000000000000000 ''order-1'' ''0xWLD'' ''0xShop'']"
proof -
  have w: "convertAmount (Finite 2) = Inr 2000000000000000000"
    by simp
  obtain ra where ra: "Success None = Inr ra"
    by (simp add: Success_def)
  from approval_and_payment_share_amount
    [where env = "sample_env (Success None) (Success (Some ''0xfeed'')) (Inr ())"
      and d = order1 and s = idle and w = 2000000000000000000 and ra = ra] w ra
  show ?thesis
    by (simp add: sample_env_def order1_def)
qed


subsection \<open>Notifications\<close>

lemma processPayment_notifies: "notifies_once ''Payment successful!'' s (processPayment env d s)"
  unfolding notifies_once_def
  by (rule payment_paths [of env d]; simp add: flow_unfold)

lemma processPaymentWithApproval_notifies:
  "notifies_once ''Payment successful!'' s (processPaymentWithApproval env d s)"
  unfolding notifies_once_def
  by (rule approval_payment_paths [of env d]; simp add: flow_unfold)

lemma processSmartPayment_notifies:
  "notifies_once ''Payment successful!'' s (processSmartPayment env d s)"
  unfolding notifies_once_def
  by (rule smart_paths [of env d]; simp add: flow_unfold)

lemma approveTokens_notifies:
  "notifies_once ''Token approval successful! You can now proceed with payment.'' s
     (approveTokens env wallet a s)"
  unfolding notifies_once_def
  by (rule approval_paths [of env a]; simp add: flow_unfold)

lemma executePaymentOnly_notifies:
  "notifies_once ''Payment successful!'' s (executePaymentOnly env d s)"
  unfolding notifies_once_def
  by (rule payment_paths [of env d]; simp add: flow_unfold)

text \<open>
  C8. Every run of a flow shows exactly one notification: \<^verbatim>\<open>toast.success\<close> (with the
  flow's fixed message) when the result has \<^verbatim>\<open>success: true\<close>, and otherwise
  \<^verbatim>\<open>toast.error\<close> with the very message the result carries in \<^verbatim>\<open>error\<close>. No run
  shows both and none shows nothing.
\<close>

theorem flows_notify_once:
  "notifies_once ''Payment successful!'' s (processPayment env d s) \<and>
   notifies_once ''Payment successful!'' s (processPaymentWithApproval env d s) \<and>
   notifies_once ''Payment successful!'' s (processSmartPayment env d s) \<and>
   notifies_once ''Token approval successful! You can now proceed with payment.'' s
     (approveTokens env wallet a s) \<and>
   notifies_once ''Payment successful!'' s (executePaymentOnly env d s)"
  by (simp only: processPayment_notifies processPaymentWithApproval_notifies
      processSmartPayment_notifies approveTokens_notifies executePaymentOnly_notifies)

subsection \<open>Amounts that do not convert\<close>

text \<open>When the conversion throws, no flow reaches the wallet client.\<close>

lemma processPayment_no_call:
  "wldToWei env (amount d) = Inl e \<Longrightarrow>
   filter is_wallet_call (emitted s (snd (processPayment env d s))) = []"
  by (simp add: flow_unfold)

lemma processPaymentWithApproval_no_call:
  "wldToWei env (amount d) = Inl e \<Longrightarrow>
   filter is_wallet_call (emitted s (snd (processPaymentWithApproval env d s))) = []"
  by (simp add: flow_unfold)

lemma processSmartPayment_no_call:
  "wldToWei env (amount d) = Inl e \<Longrightarrow>
   filter is_wallet_call (emitted s (snd (processSmartPayment env d s))) = []"
  by (simp add: flow_unfold)

lemma approveTokens_no_call:
  "wldToWei env a = Inl e \<Longrightarrow>
   filter is_wallet_call (emitted s (snd (approveTokens env wallet a s))) = []"
  by (simp add: flow_unfold)

lemma executePaymentOnly_no_call:
  "wldToWei env (amount d) = Inl e \<Longrightarrow>
   filter is_wallet_call (emitted s (snd (executePaymentOnly env d s))) = []"
  by (simp add: flow_unfold)

lemma convertAmount_invalid:
  "\<not> is_finite a \<or> is_negative a \<or> is_zero a \<Longrightarrow> convertAmount a = Inl InvalidAmount"
  by (cases a) auto

text \<open>
  C9. The conversion of the specification fails with \<open>InvalidAmount\<close> on every amount
  that is not finite, is negative, or is zero; and with that conversion in place, a
  flow run on such an amount makes no call to the wallet client.
\<close>

theorem invalid_amount_rejected:
  assumes "\<not> is_finite a \<or> is_negative a \<or> is_zero a"
  shows
    "convertAmount a = Inl InvalidAmount \<and>
     filter is_wallet_call
       (emitted s (snd (processPayment (env\<lparr>wldToWei := convertAmount\<rparr>)
                          (d\<lparr>amount := a\<rparr>) s))) = [] \<and>
     filter is_wallet_call
       (emitted s (snd (processPaymentWithApproval (env\<lparr>wldToWei := convertAmount\<rparr>)
                          (d\<lparr>amount := a\<rparr>) s))) = [] \<and>
     filter is_wallet_call
       (emitted s (snd (processSmartPayment (env\<lparr>wldToWei := convertAmount\<rparr>)
                          (d\<lparr>amount := a\<rparr>) s))) = [] \<and>
     filter is_wallet_call
       (emitted s (snd (approveTokens (env\<lparr>wldToWei := convertAmount\<rparr>) wallet a s))) = [] \<and>
     filter is_wallet_call
       (emitted s (snd (executePaymentOnly (env\<lparr>wldToWei := convertAmount\<rparr>)
                          (d\<lparr>amount := a\<rparr>) s))) = []"
proof -
  from assms have bad: "convertAmount a = Inl InvalidAmount"
    by (rule convertAmount_invalid)
  then have 1: "wldToWei (env\<lparr>wldToWei := convertAmount\<rparr>) (amount (d\<lparr>amount := a\<rparr>))
      = Inl InvalidAmount"
    and 2: "wldToWei (env\<lparr>wldToWei := convertAmount\<rparr>) a = Inl InvalidAmount"
    by simp_all
  from bad processPayment_no_call [OF 1] processPaymentWithApproval_no_call [OF 1]
    processSmartPayment_no_call [OF 1] approveTokens_no_call [OF 2]
    executePaymentOnly_no_call [OF 1]
  show ?thesis by (intro conjI)
qed

theorem invalid_amount_rejected_witness:
  "convertAmount (Finite 0) = Inl InvalidAmount \<and>
   convertAmount NaN = Inl InvalidAmount \<and>
   convertAmount (Finite (- 1)) = Inl InvalidAmount \<and>
   filter is_wallet_call
     (emitted idle (snd (processPayment
        ((sample_env (Success None) (Success (Some ''0xfeed'')) (Inr ()))
           \<lparr>wldToWei := convertAmount\<rparr>)
        (order1\<lparr>amount := Finite 0\<rparr>) idle))) = []"
proof -
  have zero: "\<not> is_finite (Finite 0) \<or> is_negative (Finite 0) \<or> is_zero (Finite 0)"
    by simp
  have nan: "\<not> is_finite NaN \<or> is_negative NaN \<or> is_zero NaN"
    by simp
  have neg: "\<not> is_finite (Finite (- 1)) \<or> is_negative (Finite (- 1)) \<or> is_zero (Finite (- 1))"
    by simp
  from invalid_amount_rejected [OF zero,
      where env = "sample_env (Success None) (Success (Some ''0xfeed'')) (Inr ())"
      and d = order1 and s = idle]
    invalid_amount_rejected [OF nan, where s = idle]
    invalid_amount_rejected [OF neg, where s = idle]
  show ?thesis by blast
qed


end
